theory Spec2Isabelle
  imports Complex_Main
begin

section \<open>Python values, messages and exceptions\<close>

text \<open>
  The values that travel through \<^verbatim>\<open>main.py\<close> are what \<^verbatim>\<open>response.json()\<close> yields and
  what the program stores under \<^verbatim>\<open>"content"\<close>: JSON-shaped Python values. A Python
  \<^verbatim>\<open>dict\<close> is the list of its items (keys distinct), read with \<open>map_of\<close>. A Python
  \<^verbatim>\<open>str\<close> is a \<open>string\<close>; its characters are code points below 256. A \<^verbatim>\<open>float\<close> is
  the rational number that its JSON text denotes (\<^verbatim>\<open>0.7\<close> is \<open>7 / 10\<close>).
\<close>

datatype json =
    JNull
  | JBool bool
  | JInt int
  | JFloat rat
  | JStr string
  | JArr "json list"
  | JObj "(string \<times> json) list"

text \<open>
  An element of a messages list: a \<^verbatim>\<open>HumanMessage\<close> or \<^verbatim>\<open>AIMessage\<close> object (with its
  \<^verbatim>\<open>.content\<close>), a plain \<^verbatim>\<open>dict\<close>, or an object of any other class (named by a label).
\<close>

datatype message =
    HumanMessage json
  | AIMessage json
  | Dict "(string \<times> json) list"
  | Other string

text \<open>
  Instances of \<^verbatim>\<open>Exception\<close>. \<open>External\<close> is whatever the Search Provider, the HTTP
  transport or the JSON decoder raises.
\<close>

datatype exn =
    IndexError
  | KeyError json
  | TypeError
  | AttributeError
  | ValueError
  | ValidationError
  | NotImplementedError
  | HTTPError nat
  | External string

record request =
  url :: string
  headers :: "(string \<times> string) list"
  body :: json

record response =
  status_code :: nat
  json_result :: "exn + json"

text \<open>The calls that leave the process, in the order they are made.\<close>

datatype event = SearchInvoke string | HttpPost request

fun is_search :: "event \<Rightarrow> bool" where
  "is_search (SearchInvoke q) = True"
| "is_search (HttpPost r) = False"

text \<open>
  Everything outside \<^verbatim>\<open>main.py\<close> that a turn depends on: the credential read from the
  process environment, the Search Provider (\<^verbatim>\<open>search.invoke\<close>), the HTTP transport
  (\<^verbatim>\<open>requests.post\<close>), what \<^verbatim>\<open>str()\<close> does on a message object (its \<^verbatim>\<open>__str__\<close> returns
  a text or raises), and the text that \<^verbatim>\<open>str()\<close> gives for an exception.
\<close>

record env =
  api_key :: string
  search :: "string \<Rightarrow> exn + string"
  http_post :: "request \<Rightarrow> exn + response"
  str_of :: "message \<Rightarrow> exn + string"
  str_exn :: "exn \<Rightarrow> string"

record state =
  messages :: "message list"

record graph_input =
  messages_in :: "message list"
  search_enabled_in :: bool


section \<open>Python and library operations the program calls\<close>

text \<open>\<^verbatim>\<open>xs[-1]\<close>: the last element, \<^verbatim>\<open>IndexError\<close> on an empty list.\<close>

definition py_last :: "'a list \<Rightarrow> exn + 'a" where
  "py_last xs = (if xs = [] then Inl IndexError else Inr (last xs))"

text \<open>\<^verbatim>\<open>x[k]\<close> for a string key \<open>k\<close>.\<close>

fun getitem_key :: "json \<Rightarrow> string \<Rightarrow> exn + json" where
  "getitem_key (JObj kvs) k =
     (case map_of kvs k of Some v \<Rightarrow> Inr v | None \<Rightarrow> Inl (KeyError (JStr k)))"
| "getitem_key _ k = Inl TypeError"

text \<open>
  \<^verbatim>\<open>x[i]\<close> for an index \<open>i \<ge> 0\<close>: a list or a string is indexed, a \<^verbatim>\<open>dict\<close> decoded from
  JSON has string keys only, every other value is not subscriptable.
\<close>

fun getitem_index :: "json \<Rightarrow> nat \<Rightarrow> exn + json" where
  "getitem_index (JArr xs) i = (if i < length xs then Inr (xs ! i) else Inl IndexError)"
| "getitem_index (JStr s) i = (if i < length s then Inr (JStr [s ! i]) else Inl IndexError)"
| "getitem_index (JObj kvs) i = Inl (KeyError (JInt (int i)))"
| "getitem_index _ i = Inl TypeError"

text \<open>
  \<^verbatim>\<open>str.lower()\<close> on code points below 256: the letters A to Z and the Latin-1 capitals
  (192 to 222, but 215, the multiplication sign) move up by 32.
\<close>

definition lower_char :: "char \<Rightarrow> char" where
  "lower_char c =
     (let n = (of_char c :: nat) in
      if (65 \<le> n \<and> n \<le> 90) \<or> (192 \<le> n \<and> n \<le> 222 \<and> n \<noteq> 215)
      then char_of (n + 32) else c)"

definition str_lower :: "string \<Rightarrow> string" where
  "str_lower s = map lower_char s"

text \<open>\<^verbatim>\<open>s.startswith(w)\<close> and \<^verbatim>\<open>w in s\<close> on strings.\<close>

fun startswith :: "string \<Rightarrow> string \<Rightarrow> bool" where
  "startswith s [] = True"
| "startswith [] (c # w) = False"
| "startswith (d # s) (c # w) = (d = c \<and> startswith s w)"

fun str_in :: "string \<Rightarrow> string \<Rightarrow> bool" where
  "str_in w [] = (w = [])"
| "str_in w (d # s) = (startswith (d # s) w \<or> str_in w s)"

text \<open>
  \<^verbatim>\<open>response.raise_for_status()\<close> of requests: a status from 400 to 599 raises
  \<^verbatim>\<open>HTTPError\<close>, every other status returns.
\<close>

definition raise_for_status :: "response \<Rightarrow> exn + unit" where
  "raise_for_status r =
     (if 400 \<le> status_code r \<and> status_code r < 600
      then Inl (HTTPError (status_code r)) else Inr ())"

text \<open>Python truthiness of a value (\<^verbatim>\<open>x or ""\<close>).\<close>

fun truthy :: "json \<Rightarrow> bool" where
  "truthy JNull = False"
| "truthy (JBool b) = b"
| "truthy (JInt i) = (i \<noteq> 0)"
| "truthy (JFloat q) = (q \<noteq> 0)"
| "truthy (JStr s) = (s \<noteq> [])"
| "truthy (JArr xs) = (xs \<noteq> [])"
| "truthy (JObj kvs) = (kvs \<noteq> [])"

text \<open>
  The content a langchain message object accepts: a string, or a list of strings and
  dicts; anything else fails validation.
\<close>

fun content_block :: "json \<Rightarrow> bool" where
  "content_block (JStr s) = True"
| "content_block (JObj kvs) = True"
| "content_block _ = False"

fun valid_content :: "json \<Rightarrow> bool" where
  "valid_content (JStr s) = True"
| "valid_content (JArr xs) = list_all content_block xs"
| "valid_content _ = False"

text \<open>
  \<^verbatim>\<open>convert_to_messages\<close> of langchain, on the shapes this program builds: a message
  object passes unchanged; a dict needs \<^verbatim>\<open>"role"\<close> and \<^verbatim>\<open>"content"\<close>, and the roles
  \<^verbatim>\<open>user\<close>/\<^verbatim>\<open>human\<close> and \<^verbatim>\<open>assistant\<close>/\<^verbatim>\<open>ai\<close> give a \<^verbatim>\<open>HumanMessage\<close> and an
  \<^verbatim>\<open>AIMessage\<close> holding \<^verbatim>\<open>content or ""\<close>. The library knows further roles and input
  shapes; the program never produces them, and they are rejected here.
\<close>

definition message_of_role :: "json \<Rightarrow> json \<Rightarrow> exn + message" where
  "message_of_role role content =
     (let c = (if truthy content then content else JStr []) in
      if \<not> valid_content c then Inl ValidationError
      else if role = JStr ''user'' \<or> role = JStr ''human'' then Inr (HumanMessage c)
      else if role = JStr ''assistant'' \<or> role = JStr ''ai'' then Inr (AIMessage c)
      else Inl ValueError)"

fun convert_to_message :: "message \<Rightarrow> exn + message" where
  "convert_to_message (HumanMessage c) = Inr (HumanMessage c)"
| "convert_to_message (AIMessage c) = Inr (AIMessage c)"
| "convert_to_message (Dict d) =
     (case map_of d ''role'' of
        None \<Rightarrow> Inl ValueError
      | Some role \<Rightarrow>
          (case map_of d ''content'' of
             None \<Rightarrow> Inl ValueError
           | Some content \<Rightarrow> message_of_role role content))"
| "convert_to_message (Other s) = Inl NotImplementedError"

fun convert_to_messages :: "message list \<Rightarrow> exn + message list" where
  "convert_to_messages [] = Inr []"
| "convert_to_messages (m # ms) =
     (case convert_to_message m of
        Inl e \<Rightarrow> Inl e
      | Inr m' \<Rightarrow>
          (case convert_to_messages ms of
             Inl e \<Rightarrow> Inl e
           | Inr ms' \<Rightarrow> Inr (m' # ms')))"

text \<open>
  The reducer \<^verbatim>\<open>add_messages\<close> of langgraph, annotated on \<^verbatim>\<open>State.messages\<close>: both
  sides are converted to message objects and every message without an id gets a fresh
  one, so the update is appended to what is there (no message of this program carries
  an id, so none replaces another).
\<close>

definition add_messages :: "message list \<Rightarrow> message list \<Rightarrow> exn + message list" where
  "add_messages left right =
     (case convert_to_messages left of
        Inl e \<Rightarrow> Inl e
      | Inr l \<Rightarrow>
          (case convert_to_messages right of
             Inl e \<Rightarrow> Inl e
           | Inr r \<Rightarrow> Inr (l @ r)))"


section \<open>The program\<close>

subsection \<open>Completion Client: \<^verbatim>\<open>call_sonar_api\<close>\<close>

definition sonar_request :: "env \<Rightarrow> string \<Rightarrow> request" where
  "sonar_request env prompt =
     \<lparr> url = ''https://api.perplexity.ai/chat/completions'',
       headers = [(''Authorization'', ''Bearer '' @ api_key env),
                  (''Content-Type'', ''application/json'')],
       body = JObj [(''model'', JStr ''sonar''),
                    (''messages'', JArr [JObj [(''role'', JStr ''user''),
                                               (''content'', JStr prompt)]]),
                    (''max_tokens'', JInt 500),
                    (''temperature'', JFloat (7 / 10))] \<rparr>"

definition call_sonar_api :: "env \<Rightarrow> string \<Rightarrow> (exn + json) \<times> event list" where
  "call_sonar_api env prompt =
     (let req = sonar_request env prompt in
      (case http_post env req of
         Inl e \<Rightarrow> Inl e
       | Inr response \<Rightarrow>
           (case raise_for_status response of
              Inl e \<Rightarrow> Inl e
            | Inr _ \<Rightarrow>
                (case json_result response of
                   Inl e \<Rightarrow> Inl e
                 | Inr j \<Rightarrow>
                     (case getitem_key j ''choices'' of
                        Inl e \<Rightarrow> Inl e
                      | Inr choices \<Rightarrow>
                          (case getitem_index choices 0 of
                             Inl e \<Rightarrow> Inl e
                           | Inr choice \<Rightarrow>
                               (case getitem_key choice ''message'' of
                                  Inl e \<Rightarrow> Inl e
                                | Inr msg \<Rightarrow> getitem_key msg ''content''))))),
       [HttpPost req]))"

subsection \<open>Query Classifier\<close>

definition casual_keywords :: "string list" where
  "casual_keywords =
     [''hi'', ''hello'', ''how are you'', ''what's up'', ''hey'', ''joke'', ''python'']"

definition is_casual :: "string \<Rightarrow> bool" where
  "is_casual user_question =
     list_ex (\<lambda>word. str_in word (str_lower user_question)) casual_keywords"

subsection \<open>Dispatch Function: \<^verbatim>\<open>chatbot\<close>\<close>

definition SYSTEM_PROMPT :: "string \<Rightarrow> string \<Rightarrow> string" where
  "SYSTEM_PROMPT search_result user_question =
     ''You are an Expert Web Research Assistant.'' @ [CHR 0x0A, CHR 0x0A] @
     ''SEARCH RESULTS: '' @ search_result @ [CHR 0x0A, CHR 0x0A] @
     ''USER QUESTION: '' @ user_question @ [CHR 0x0A, CHR 0x0A] @
     ''Provide a well-structured, informative response based on the search results.''"

definition assistant_dict :: "json \<Rightarrow> message" where
  "assistant_dict content = Dict [(''role'', JStr ''assistant''), (''content'', content)]"

definition user_dict :: "string \<Rightarrow> message" where
  "user_dict content = Dict [(''role'', JStr ''user''), (''content'', JStr content)]"

text \<open>
  Lines 56 to 61: the text of the last message. \<^verbatim>\<open>str(last_message)\<close> on line 61 raises
  what the object's \<^verbatim>\<open>__str__\<close> raises.
\<close>

fun get_user_question :: "env \<Rightarrow> message \<Rightarrow> exn + json" where
  "get_user_question env (HumanMessage content) = Inr content"
| "get_user_question env (Dict d) =
     (case map_of d ''content'' of Some v \<Rightarrow> Inr v | None \<Rightarrow> Inr (JStr []))"
| "get_user_question env last_message =
     (case str_of env last_message of Inl e \<Rightarrow> Inl e | Inr s \<Rightarrow> Inr (JStr s))"

text \<open>
  Lines 67 to 80, for a question that is a string: the response text or the exception,
  with the outgoing calls.
\<close>

definition respond :: "env \<Rightarrow> string \<Rightarrow> bool \<Rightarrow> (exn + json) \<times> event list" where
  "respond env user_question search_enabled =
     (if is_casual user_question \<or> \<not> search_enabled
      then call_sonar_api env user_question
      else
        (case search env user_question of
           Inl e \<Rightarrow> (Inl e, [SearchInvoke user_question])
         | Inr search_result \<Rightarrow>
             (case call_sonar_api env (SYSTEM_PROMPT search_result user_question) of
                (r, evs) \<Rightarrow> (r, SearchInvoke user_question # evs))))"

text \<open>
  \<^verbatim>\<open>chatbot(state, search_enabled=True)\<close>. The keyword argument is \<open>None\<close> when the caller
  leaves it out. A question that is not a string has no \<^verbatim>\<open>.lower()\<close>. The result is the
  state after the in-place append, paired with the returned update.
\<close>

definition chatbot ::
  "env \<Rightarrow> state \<Rightarrow> bool option \<Rightarrow> (exn + state \<times> state) \<times> event list" where
  "chatbot env st search_enabled_arg =
     (let search_enabled = (case search_enabled_arg of None \<Rightarrow> True | Some b \<Rightarrow> b) in
      case py_last (messages st) of
        Inl e \<Rightarrow> (Inl e, [])
      | Inr last_message \<Rightarrow>
          (case get_user_question env last_message of
             Inl e \<Rightarrow> (Inl e, [])
           | Inr question \<Rightarrow>
               (case question of
                  JStr user_question \<Rightarrow>
                    (case respond env user_question search_enabled of
                       (Inl e, evs) \<Rightarrow> (Inl e, evs)
                     | (Inr response_text, evs) \<Rightarrow>
                         (Inr (st\<lparr>messages := messages st @ [assistant_dict response_text]\<rparr>,
                               \<lparr>messages = [assistant_dict response_text]\<rparr>), evs))
                | _ \<Rightarrow> (Inl AttributeError, []))))"

subsection \<open>The compiled graph: \<^verbatim>\<open>graph.invoke\<close>\<close>

text \<open>
  The graph has the one node \<^verbatim>\<open>chatbot\<close> after \<^verbatim>\<open>START\<close>, and \<^verbatim>\<open>State\<close> declares the one
  channel \<^verbatim>\<open>messages\<close>. langgraph writes the input's \<^verbatim>\<open>messages\<close> through the reducer
  into the empty channel, drops the input key \<^verbatim>\<open>search_enabled\<close> (it is no channel of
  \<^verbatim>\<open>State\<close>), calls the node with the state alone, and writes the node's returned update
  through the reducer onto the channel's list, which is the list the node appended to.
\<close>

definition graph_invoke :: "env \<Rightarrow> graph_input \<Rightarrow> (exn + state) \<times> event list" where
  "graph_invoke env inp =
     (case add_messages [] (messages_in inp) of
        Inl e \<Rightarrow> (Inl e, [])
      | Inr ms \<Rightarrow>
          (case chatbot env \<lparr>messages = ms\<rparr> None of
             (Inl e, evs) \<Rightarrow> (Inl e, evs)
           | (Inr (st', update), evs) \<Rightarrow>
               (case add_messages (messages st') (messages update) of
                  Inl e \<Rightarrow> (Inl e, evs)
                | Inr ms' \<Rightarrow> (Inr \<lparr>messages = ms'\<rparr>, evs))))"

subsection \<open>The turn handler (lines 123 to 149)\<close>

text \<open>
  Lines 139 to 143: the content of the last message of the result. The default of
  \<^verbatim>\<open>.get\<close> is evaluated first; an object that is neither an \<^verbatim>\<open>AIMessage\<close> nor a dict
  has no \<^verbatim>\<open>.get\<close>.
\<close>

fun get_ai_response :: "env \<Rightarrow> message \<Rightarrow> exn + json" where
  "get_ai_response env (AIMessage content) = Inr content"
| "get_ai_response env (Dict d) =
     (case str_of env (Dict d) of
        Inl e \<Rightarrow> Inl e
      | Inr s \<Rightarrow> (case map_of d ''content'' of Some v \<Rightarrow> Inr v | None \<Rightarrow> Inr (JStr s)))"
| "get_ai_response env ai_response_msg = Inl AttributeError"

definition error_msg :: "env \<Rightarrow> exn \<Rightarrow> string" where
  "error_msg env e = ''Sorry, I encountered an error: '' @ str_exn env e"

text \<open>
  One run of the handler on the session's message list: \<open>user_input\<close> is what
  \<^verbatim>\<open>st.chat_input\<close> returned (\<open>None\<close>, or the submitted text) and \<open>search_enabled\<close> is
  the sidebar checkbox. The widgets that only display are left out. The result is the
  session's list afterwards, with the outgoing calls.
\<close>

definition chat_turn ::
  "env \<Rightarrow> bool \<Rightarrow> message list \<Rightarrow> string option \<Rightarrow> message list \<times> event list" where
  "chat_turn env search_enabled session user_input_opt =
     (case user_input_opt of
        None \<Rightarrow> (session, [])
      | Some user_input \<Rightarrow>
          if user_input = [] then (session, [])
          else
            (let session1 = session @ [user_dict user_input] in
             case graph_invoke env \<lparr>messages_in = [user_dict user_input],
                                    search_enabled_in = search_enabled\<rparr> of
               (Inl e, evs) \<Rightarrow>
                 (session1 @ [assistant_dict (JStr (error_msg env e))], evs)
             | (Inr result, evs) \<Rightarrow>
                 (case py_last (messages result) of
                    Inl e \<Rightarrow> (session1 @ [assistant_dict (JStr (error_msg env e))], evs)
                  | Inr ai_response_msg \<Rightarrow>
                      (case get_ai_response env ai_response_msg of
                         Inl e \<Rightarrow>
                           (session1 @ [assistant_dict (JStr (error_msg env e))], evs)
                       | Inr ai_response \<Rightarrow>
                           (session1 @ [assistant_dict ai_response], evs)))))"

section \<open>The spec's success status\<close>

text \<open>
  The spec's words for the statuses on which the Completion Client does not raise: it
  "raises on non-2xx response". This is the spec's reading, to be compared with
  \<open>raise_for_status\<close> above.
\<close>

definition spec_success_status :: "nat \<Rightarrow> bool" where
  "spec_success_status s = (200 \<le> s \<and> s < 300)"


section \<open>Example environments\<close>

text \<open>A completion endpoint's answer whose first choice holds the given text.\<close>

definition completion_body :: "string \<Rightarrow> json" where
  "completion_body text =
     JObj [(''id'', JStr ''1''),
           (''choices'', JArr [JObj [(''index'', JInt 0),
                                     (''message'', JObj [(''role'', JStr ''assistant''),
                                                         (''content'', JStr text)])]])]"

text \<open>Both services answer: the search finds a sentence, the endpoint answers with 200.\<close>

definition env_up :: env where
  "env_up =
     \<lparr> api_key = ''secret'',
       search = (\<lambda>q. Inr ''Paris is the capital of France.''),
       http_post = (\<lambda>req. Inr \<lparr>status_code = 200, json_result = Inr (completion_body ''Paris.'')\<rparr>),
       str_of = (\<lambda>m. Inr ''object''),
       str_exn = (\<lambda>e. ''failure'') \<rparr>"

text \<open>The Search Provider raises.\<close>

definition env_search_down :: env where
  "env_search_down = env_up\<lparr>search := (\<lambda>q. Inl (External ''search timed out''))\<rparr>"

text \<open>The endpoint answers 500 with a body that is no JSON.\<close>

definition env_api_down :: env where
  "env_api_down =
     env_up\<lparr>http_post :=
       (\<lambda>req. Inr \<lparr>status_code = 500, json_result = Inl (External ''no JSON'')\<rparr>)\<rparr>"

text \<open>An object of another class whose \<^verbatim>\<open>__str__\<close> raises \<^verbatim>\<open>ValueError\<close>.\<close>

definition env_str_raises :: env where
  "env_str_raises =
     env_up\<lparr>str_of := (\<lambda>m. case m of Other x \<Rightarrow> Inl ValueError | _ \<Rightarrow> Inr ''object'')\<rparr>"

text \<open>The endpoint answers 300 (Multiple Choices) with a well-formed body.\<close>

definition env_redirect :: env where
  "env_redirect =
     env_up\<lparr>http_post :=
       (\<lambda>req. Inr \<lparr>status_code = 300, json_result = Inr (completion_body ''elsewhere'')\<rparr>)\<rparr>"


section \<open>Auxiliary facts\<close>

lemma startswith_iff: "startswith s w \<longleftrightarrow> (\<exists>q. s = w @ q)"
  by (induction s w rule: startswith.induct) auto

lemma str_in_iff: "str_in w s \<longleftrightarrow> (\<exists>p q. s = p @ w @ q)"
proof (induction s)
  case Nil
  then show ?case by auto
next
  case (Cons d s)
  show ?case
  proof
    assume "str_in w (d # s)"
    then consider "startswith (d # s) w" | "str_in w s" by auto
    then show "\<exists>p q. d # s = p @ w @ q"
    proof cases
      case 1
      then obtain q where "d # s = w @ q" by (auto simp: startswith_iff)
      then have "d # s = [] @ w @ q" by simp
      then show ?thesis by blast
    next
      case 2
      then obtain p q where "s = p @ w @ q" using Cons.IH by auto
      then have "d # s = (d # p) @ w @ q" by simp
      then show ?thesis by blast
    qed
  next
    assume "\<exists>p q. d # s = p @ w @ q"
    then obtain p q where pq: "d # s = p @ w @ q" by auto
    show "str_in w (d # s)"
    proof (cases p)
      case Nil
      then have "startswith (d # s) w" using pq by (auto simp: startswith_iff)
      then show ?thesis by simp
    next
      case (Cons a p')
      then have "s = p' @ w @ q" using pq by simp
      then have "str_in w s" using Cons.IH by blast
      then show ?thesis by simp
    qed
  qed
qed

lemma call_sonar_api_events:
  "snd (call_sonar_api env prompt) = [HttpPost (sonar_request env prompt)]"
  by (simp add: call_sonar_api_def Let_def)

lemma respond_direct:
  "is_casual u \<or> \<not> se \<Longrightarrow> respond env u se = call_sonar_api env u"
  by (auto simp: respond_def)

lemma respond_search_raises:
  "\<not> is_casual u \<Longrightarrow> se \<Longrightarrow> search env u = Inl e \<Longrightarrow>
   respond env u se = (Inl e, [SearchInvoke u])"
  by (simp add: respond_def)

lemma respond_search_returns:
  "\<not> is_casual u \<Longrightarrow> se \<Longrightarrow> search env u = Inr r \<Longrightarrow>
   respond env u se =
     (fst (call_sonar_api env (SYSTEM_PROMPT r u)),
      [SearchInvoke u, HttpPost (sonar_request env (SYSTEM_PROMPT r u))])"
  by (simp add: respond_def call_sonar_api_def Let_def)

lemma chatbot_on_string:
  "messages st \<noteq> [] \<Longrightarrow> get_user_question env (last (messages st)) = Inr (JStr u) \<Longrightarrow>
   chatbot env st arg =
     (case respond env u (case arg of None \<Rightarrow> True | Some b \<Rightarrow> b) of
        (Inl e, evs) \<Rightarrow> (Inl e, evs)
      | (Inr r, evs) \<Rightarrow>
          (Inr (st\<lparr>messages := messages st @ [assistant_dict r]\<rparr>,
                \<lparr>messages = [assistant_dict r]\<rparr>), evs))"
  by (simp add: chatbot_def py_last_def)

lemma chatbot_events:
  "messages st \<noteq> [] \<Longrightarrow> get_user_question env (last (messages st)) = Inr (JStr u) \<Longrightarrow>
   snd (chatbot env st arg) = snd (respond env u (case arg of None \<Rightarrow> True | Some b \<Rightarrow> b))"
  by (simp add: chatbot_on_string split: prod.splits sum.splits)

lemma convert_user_dict:
  "u \<noteq> [] \<Longrightarrow> convert_to_message (user_dict u) = Inr (HumanMessage (JStr u))"
  by (simp add: user_dict_def message_of_role_def)

lemma convert_assistant_dict:
  "convert_to_message (assistant_dict r) =
     (if valid_content (if truthy r then r else JStr [])
      then Inr (AIMessage (if truthy r then r else JStr [])) else Inl ValidationError)"
  by (simp add: assistant_dict_def message_of_role_def Let_def)

lemma convert_to_messages_append:
  "convert_to_messages (xs @ ys) =
     (case convert_to_messages xs of
        Inl e \<Rightarrow> Inl e
      | Inr xs' \<Rightarrow> (case convert_to_messages ys of Inl e \<Rightarrow> Inl e | Inr ys' \<Rightarrow> Inr (xs' @ ys')))"
  by (induction xs) (auto split: sum.splits)

lemma graph_invoke_user:
  "u \<noteq> [] \<Longrightarrow>
   graph_invoke env \<lparr>messages_in = [user_dict u], search_enabled_in = se\<rparr> =
     (case respond env u True of
        (Inl e, evs) \<Rightarrow> (Inl e, evs)
      | (Inr r, evs) \<Rightarrow>
          (if valid_content (if truthy r then r else JStr [])
           then Inr \<lparr>messages = [HumanMessage (JStr u),
                                 AIMessage (if truthy r then r else JStr []),
                                 AIMessage (if truthy r then r else JStr [])]\<rparr>
           else Inl ValidationError, evs))"
  by (simp add: graph_invoke_def add_messages_def convert_user_dict chatbot_on_string
      convert_assistant_dict split: prod.splits sum.splits)

lemma chat_turn_user:
  "u \<noteq> [] \<Longrightarrow>
   chat_turn env se session (Some u) =
     (case respond env u True of
        (Inl e, evs) \<Rightarrow>
          (session @ [user_dict u, assistant_dict (JStr (error_msg env e))], evs)
      | (Inr r, evs) \<Rightarrow>
          (session @ [user_dict u,
             assistant_dict (if valid_content (if truthy r then r else JStr [])
                             then (if truthy r then r else JStr [])
                             else JStr (error_msg env ValidationError))], evs))"
  by (simp add: chat_turn_def graph_invoke_user py_last_def split: prod.splits sum.splits)

lemma is_casual_iff:
  "is_casual s \<longleftrightarrow> (\<exists>w \<in> set casual_keywords. \<exists>p q. str_lower s = p @ w @ q)"
  by (simp add: is_casual_def list_ex_iff str_in_iff)

lemma SYSTEM_PROMPT_contains:
  "(\<exists>a b. SYSTEM_PROMPT r u = a @ r @ b) \<and> (\<exists>a b. SYSTEM_PROMPT r u = a @ u @ b)"
proof
  have "SYSTEM_PROMPT r u =
      (''You are an Expert Web Research Assistant.'' @ [CHR 0x0A, CHR 0x0A] @
       ''SEARCH RESULTS: '') @ r @
      ([CHR 0x0A, CHR 0x0A] @ ''USER QUESTION: '' @ u @ [CHR 0x0A, CHR 0x0A] @
       ''Provide a well-structured, informative response based on the search results.'')"
    by (simp add: SYSTEM_PROMPT_def)
  then show "\<exists>a b. SYSTEM_PROMPT r u = a @ r @ b"
    by blast
  have "SYSTEM_PROMPT r u =
      (''You are an Expert Web Research Assistant.'' @ [CHR 0x0A, CHR 0x0A] @
       ''SEARCH RESULTS: '' @ r @ [CHR 0x0A, CHR 0x0A] @ ''USER QUESTION: '') @ u @
      ([CHR 0x0A, CHR 0x0A] @
       ''Provide a well-structured, informative response based on the search results.'')"
    by (simp add: SYSTEM_PROMPT_def)
  then show "\<exists>a b. SYSTEM_PROMPT r u = a @ u @ b"
    by blast
qed

lemma chatbot_success_shape:
  assumes "chatbot env st arg = (Inr (st', upd), evs)"
  shows "\<exists>r. st' = st\<lparr>messages := messages st @ [assistant_dict r]\<rparr>
           \<and> upd = \<lparr>messages = [assistant_dict r]\<rparr>"
  using assms
  by (auto simp: chatbot_def py_last_def Let_def split: if_splits sum.splits json.splits prod.splits)


section \<open>The claims\<close>

subsection \<open>Query Classifier\<close>

text \<open>
  C4. The classifier is true for a string exactly when the lowercased string contains
  one of the seven keywords \<^verbatim>\<open>hi\<close>, \<^verbatim>\<open>hello\<close>, \<^verbatim>\<open>how are you\<close>, \<^verbatim>\<open>what's up\<close>, \<^verbatim>\<open>hey\<close>,
  \<^verbatim>\<open>joke\<close>, \<^verbatim>\<open>python\<close> as a substring; the empty string is not casual.
\<close>

theorem is_casual_iff_keyword_substring:
  "is_casual s =
     ((\<exists>p q. str_lower s = p @ ''hi'' @ q) \<or>
      (\<exists>p q. str_lower s = p @ ''hello'' @ q) \<or>
      (\<exists>p q. str_lower s = p @ ''how are you'' @ q) \<or>
      (\<exists>p q. str_lower s = p @ ''what's up'' @ q) \<or>
      (\<exists>p q. str_lower s = p @ ''hey'' @ q) \<or>
      (\<exists>p q. str_lower s = p @ ''joke'' @ q) \<or>
      (\<exists>p q. str_lower s = p @ ''python'' @ q))
   \<and> \<not> is_casual []"
proof
  show "is_casual s =
     ((\<exists>p q. str_lower s = p @ ''hi'' @ q) \<or>
      (\<exists>p q. str_lower s = p @ ''hello'' @ q) \<or>
      (\<exists>p q. str_lower s = p @ ''how are you'' @ q) \<or>
      (\<exists>p q. str_lower s = p @ ''what's up'' @ q) \<or>
      (\<exists>p q. str_lower s = p @ ''hey'' @ q) \<or>
      (\<exists>p q. str_lower s = p @ ''joke'' @ q) \<or>
      (\<exists>p q. str_lower s = p @ ''python'' @ q))"
    by (simp add: is_casual_def casual_keywords_def str_in_iff)
  show "\<not> is_casual []"
    by (simp add: is_casual_def casual_keywords_def str_lower_def)
qed

text \<open>The classifier at \<^verbatim>\<open>Tell me a JOKE\<close>, whose lowercased form contains \<^verbatim>\<open>joke\<close>.\<close>

theorem is_casual_iff_keyword_substring_witness:
  "is_casual ''Tell me a JOKE'' \<and> \<not> is_casual []"
proof -
  have "str_lower ''Tell me a JOKE'' = ''tell me a '' @ ''joke'' @ []"
    by code_simp
  then have "\<exists>p q. str_lower ''Tell me a JOKE'' = p @ ''joke'' @ q"
    by blast
  then show ?thesis
    using is_casual_iff_keyword_substring [of "''Tell me a JOKE''"] by blast
qed

subsection \<open>Dispatch Function\<close>

text \<open>
  C5. When the text of the last message contains a casual keyword (in any letter case),
  \<^verbatim>\<open>chatbot\<close> makes exactly one outgoing call, the completion request whose prompt is
  the raw text, and no search; its result is the completion's. The input \<^verbatim>\<open>hello\<close> is
  casual and its request carries the prompt \<^verbatim>\<open>hello\<close>.
\<close>

theorem casual_goes_straight_to_completion:
  "(messages st \<noteq> [] \<and> get_user_question env (last (messages st)) = Inr (JStr u)
      \<and> w \<in> set casual_keywords \<and> str_lower u = p @ w @ q
      \<longrightarrow> snd (chatbot env st arg) = [HttpPost (sonar_request env u)]
        \<and> fst (chatbot env st arg) =
            map_sum id (\<lambda>r. (st\<lparr>messages := messages st @ [assistant_dict r]\<rparr>,
                              \<lparr>messages = [assistant_dict r]\<rparr>))
              (fst (call_sonar_api env u)))
   \<and> is_casual ''hello''
   \<and> snd (chatbot env \<lparr>messages = [HumanMessage (JStr ''hello'')]\<rparr> arg) =
       [HttpPost (sonar_request env ''hello'')]
   \<and> body (sonar_request env ''hello'') =
       JObj [(''model'', JStr ''sonar''),
             (''messages'', JArr [JObj [(''role'', JStr ''user''), (''content'', JStr ''hello'')]]),
             (''max_tokens'', JInt 500),
             (''temperature'', JFloat (7 / 10))]"
proof -
  have hello: "is_casual ''hello''"
    by code_simp
  have gen: "snd (chatbot env st arg) = [HttpPost (sonar_request env u)]
        \<and> fst (chatbot env st arg) =
            map_sum id (\<lambda>r. (st\<lparr>messages := messages st @ [assistant_dict r]\<rparr>,
                              \<lparr>messages = [assistant_dict r]\<rparr>))
              (fst (call_sonar_api env u))"
    if "messages st \<noteq> []" "get_user_question env (last (messages st)) = Inr (JStr u)" "is_casual u"
    for st u
    using that
    by (simp add: chatbot_on_string respond_direct call_sonar_api_def Let_def
        split: prod.splits sum.splits)
  have "snd (chatbot env \<lparr>messages = [HumanMessage (JStr ''hello'')]\<rparr> arg) =
       [HttpPost (sonar_request env ''hello'')]"
    using gen [of "\<lparr>messages = [HumanMessage (JStr ''hello'')]\<rparr>" "''hello''"] hello by simp
  moreover have "is_casual u" if "w \<in> set casual_keywords" "str_lower u = p @ w @ q"
    using that is_casual_iff by blast
  ultimately show ?thesis
    using gen hello by (simp add: sonar_request_def)
qed

text \<open>A dict message whose text contains \<^verbatim>\<open>Python\<close>, with both services up.\<close>

theorem casual_goes_straight_to_completion_witness:
  "snd (chatbot env_up \<lparr>messages = [user_dict ''Hi, what is new in Python?'']\<rparr> (Some True)) =
     [HttpPost (sonar_request env_up ''Hi, what is new in Python?'')]
   \<and> fst (chatbot env_up \<lparr>messages = [user_dict ''Hi, what is new in Python?'']\<rparr> (Some True)) =
     Inr (\<lparr>messages = [user_dict ''Hi, what is new in Python?'', assistant_dict (JStr ''Paris.'')]\<rparr>,
          \<lparr>messages = [assistant_dict (JStr ''Paris.'')]\<rparr>)"
proof -
  let ?u = "''Hi, what is new in Python?''"
  let ?st = "\<lparr>messages = [user_dict ?u]\<rparr>"
  have h1: "messages ?st \<noteq> []"
    by simp
  have h2: "get_user_question env_up (last (messages ?st)) = Inr (JStr ?u)"
    by (simp add: user_dict_def)
  have h3: "''python'' \<in> set casual_keywords"
    by (simp add: casual_keywords_def)
  have h4: "str_lower ?u = ''hi, what is new in '' @ ''python'' @ ''?''"
    by code_simp
  have r: "fst (call_sonar_api env_up ?u) = Inr (JStr ''Paris.'')"
    by (simp add: call_sonar_api_def env_up_def raise_for_status_def completion_body_def Let_def)
  show ?thesis
    using casual_goes_straight_to_completion
      [of ?st env_up ?u "''python''" "''hi, what is new in ''" "''?''" "Some True"]
      h1 h2 h3 h4 r
    by simp
qed

text \<open>
  C6. When the text of the last message contains no casual keyword and search is enabled
  (the keyword argument left out, or true), \<^verbatim>\<open>chatbot\<close> first invokes the Search
  Provider, once, with that text. If the search returns, the one further call is the
  completion request, and its prompt contains both the search result and the question
  as they are. If the search raises, no further call is made.
\<close>

theorem informational_searches_once_then_completes:
  assumes "messages st \<noteq> []"
    and "get_user_question env (last (messages st)) = Inr (JStr u)"
    and "\<not> is_casual u"
    and "arg = None \<or> arg = Some True"
  shows "(case search env u of
            Inr r \<Rightarrow>
              snd (chatbot env st arg) =
                [SearchInvoke u, HttpPost (sonar_request env (SYSTEM_PROMPT r u))]
              \<and> (\<exists>a b. SYSTEM_PROMPT r u = a @ r @ b)
              \<and> (\<exists>a b. SYSTEM_PROMPT r u = a @ u @ b)
          | Inl e \<Rightarrow> snd (chatbot env st arg) = [SearchInvoke u])
         \<and> length (filter is_search (snd (chatbot env st arg))) = 1"
proof -
  have se: "(case arg of None \<Rightarrow> True | Some b \<Rightarrow> b) = True"
    using assms(4) by auto
  have ev: "snd (chatbot env st arg) = snd (respond env u True)"
    using chatbot_events [OF assms(1,2)] se by simp
  show ?thesis
  proof (cases "search env u")
    case (Inl e)
    then show ?thesis
      using ev assms(3) by (simp add: respond_search_raises)
  next
    case (Inr r)
    then show ?thesis
      using ev assms(3) SYSTEM_PROMPT_contains [of r u]
      by (simp add: respond_search_returns)
  qed
qed

text \<open>The question about the capital of France, with both services up.\<close>

theorem informational_searches_once_then_completes_witness:
  "snd (chatbot env_up \<lparr>messages = [HumanMessage (JStr ''What is the capital of France?'')]\<rparr> None) =
     [SearchInvoke ''What is the capital of France?'',
      HttpPost (sonar_request env_up
        (SYSTEM_PROMPT ''Paris is the capital of France.'' ''What is the capital of France?''))]"
proof -
  let ?u = "''What is the capital of France?''"
  let ?st = "\<lparr>messages = [HumanMessage (JStr ?u)]\<rparr>"
  have h1: "messages ?st \<noteq> []"
    by simp
  have h2: "get_user_question env_up (last (messages ?st)) = Inr (JStr ?u)"
    by simp
  have h3: "\<not> is_casual ?u"
    by code_simp
  have h4: "(None :: bool option) = None \<or> None = Some True"
    by simp
  have s: "search env_up ?u = Inr ''Paris is the capital of France.''"
    by (simp add: env_up_def)
  show ?thesis
    using informational_searches_once_then_completes [OF h1 h2 h3 h4] s by simp
qed

text \<open>
  C2. In the branch with search, an exception of the Search Provider leaves \<^verbatim>\<open>chatbot\<close>
  as it was raised: \<^verbatim>\<open>chatbot\<close> ends with that exception after the one search call,
  the Completion Client is not called and no message is appended.
\<close>

theorem search_failure_propagates:
  assumes "messages st \<noteq> []"
    and "get_user_question env (last (messages st)) = Inr (JStr u)"
    and "\<not> is_casual u"
    and "arg = None \<or> arg = Some True"
    and "search env u = Inl e"
  shows "chatbot env st arg = (Inl e, [SearchInvoke u])"
proof -
  have "(case arg of None \<Rightarrow> True | Some b \<Rightarrow> b) = True"
    using assms(4) by auto
  then show ?thesis
    using assms by (simp add: chatbot_on_string respond_search_raises)
qed

text \<open>The same question while the Search Provider is down.\<close>

theorem search_failure_propagates_witness:
  "chatbot env_search_down \<lparr>messages = [HumanMessage (JStr ''What is the capital of France?'')]\<rparr>
     (Some True) =
   (Inl (External ''search timed out''), [SearchInvoke ''What is the capital of France?''])"
proof -
  let ?u = "''What is the capital of France?''"
  let ?st = "\<lparr>messages = [HumanMessage (JStr ?u)]\<rparr>"
  have h1: "messages ?st \<noteq> []"
    by simp
  have h2: "get_user_question env_search_down (last (messages ?st)) = Inr (JStr ?u)"
    by simp
  have h3: "\<not> is_casual ?u"
    by code_simp
  have h4: "Some True = None \<or> Some True = Some True"
    by simp
  have h5: "search env_search_down ?u = Inl (External ''search timed out'')"
    by (simp add: env_search_down_def)
  show ?thesis
    using search_failure_propagates [OF h1 h2 h3 h4 h5] .
qed

text \<open>
  C9, as the code has it. On an empty messages list \<^verbatim>\<open>chatbot\<close> raises \<^verbatim>\<open>IndexError\<close>
  before any call. On a non-empty list the text of the last message is the content of a
  \<^verbatim>\<open>HumanMessage\<close>, the \<^verbatim>\<open>"content"\<close> value of a dict or the empty string when the key
  is absent, and \<^verbatim>\<open>str()\<close> of any other value; \<^verbatim>\<open>chatbot\<close> goes on with that text (a text
  that is a string is dispatched, one that is no string fails at \<^verbatim>\<open>.lower()\<close>). Reading a
  \<^verbatim>\<open>HumanMessage\<close> or a dict never raises; for any other value the extraction raises
  exactly when its \<^verbatim>\<open>str()\<close> raises, and then \<^verbatim>\<open>chatbot\<close> ends with that exception
  before any call.
\<close>

theorem user_text_by_shape:
  "chatbot env \<lparr>messages = []\<rparr> arg = (Inl IndexError, [])
   \<and> (ms \<noteq> []
        \<and> (last ms = HumanMessage q
           \<or> (\<exists>d. last ms = Dict d \<and> map_of d ''content'' = Some q)
           \<or> (\<exists>d. last ms = Dict d \<and> map_of d ''content'' = None \<and> q = JStr [])
           \<or> (\<exists>s. (\<exists>c. last ms = AIMessage c) \<and> str_of env (last ms) = Inr s \<and> q = JStr s)
           \<or> (\<exists>s. (\<exists>x. last ms = Other x) \<and> str_of env (last ms) = Inr s \<and> q = JStr s))
      \<longrightarrow> (\<forall>u. q = JStr u \<longrightarrow>
             chatbot env \<lparr>messages = ms\<rparr> arg =
               (case respond env u (case arg of None \<Rightarrow> True | Some b \<Rightarrow> b) of
                  (Inl e, evs) \<Rightarrow> (Inl e, evs)
                | (Inr r, evs) \<Rightarrow>
                    (Inr (\<lparr>messages = ms @ [Dict [(''role'', JStr ''assistant''), (''content'', r)]]\<rparr>,
                          \<lparr>messages = [Dict [(''role'', JStr ''assistant''), (''content'', r)]]\<rparr>),
                     evs)))
        \<and> ((\<forall>u. q \<noteq> JStr u) \<longrightarrow> chatbot env \<lparr>messages = ms\<rparr> arg = (Inl AttributeError, [])))
   \<and> (ms \<noteq> [] \<and> ((\<exists>c. last ms = AIMessage c) \<or> (\<exists>x. last ms = Other x))
        \<and> str_of env (last ms) = Inl e
      \<longrightarrow> chatbot env \<lparr>messages = ms\<rparr> arg = (Inl e, []))"
proof -
  have empty: "chatbot env \<lparr>messages = []\<rparr> arg = (Inl IndexError, [])"
    by (simp add: chatbot_def py_last_def)
  have ext: "get_user_question env (last ms) = Inr q"
    if "last ms = HumanMessage q
           \<or> (\<exists>d. last ms = Dict d \<and> map_of d ''content'' = Some q)
           \<or> (\<exists>d. last ms = Dict d \<and> map_of d ''content'' = None \<and> q = JStr [])
           \<or> (\<exists>s. (\<exists>c. last ms = AIMessage c) \<and> str_of env (last ms) = Inr s \<and> q = JStr s)
           \<or> (\<exists>s. (\<exists>x. last ms = Other x) \<and> str_of env (last ms) = Inr s \<and> q = JStr s)"
    using that by auto
  have str: "chatbot env \<lparr>messages = ms\<rparr> arg =
               (case respond env u (case arg of None \<Rightarrow> True | Some b \<Rightarrow> b) of
                  (Inl e, evs) \<Rightarrow> (Inl e, evs)
                | (Inr r, evs) \<Rightarrow>
                    (Inr (\<lparr>messages = ms @ [Dict [(''role'', JStr ''assistant''), (''content'', r)]]\<rparr>,
                          \<lparr>messages = [Dict [(''role'', JStr ''assistant''), (''content'', r)]]\<rparr>),
                     evs))"
    if "ms \<noteq> []" "get_user_question env (last ms) = Inr (JStr u)" for u
    using that
    by (simp add: chatbot_on_string assistant_dict_def split: prod.splits sum.splits)
  have nostr: "chatbot env \<lparr>messages = ms\<rparr> arg = (Inl AttributeError, [])"
    if "ms \<noteq> []" "get_user_question env (last ms) = Inr q" "\<forall>u. q \<noteq> JStr u"
    using that by (simp add: chatbot_def py_last_def split: json.splits)
  have raises: "chatbot env \<lparr>messages = ms\<rparr> arg = (Inl e, [])"
    if "ms \<noteq> []" "(\<exists>c. last ms = AIMessage c) \<or> (\<exists>x. last ms = Other x)"
      "str_of env (last ms) = Inl e"
    using that by (auto simp: chatbot_def py_last_def)
  show ?thesis
    using empty ext str nostr raises by blast
qed

text \<open>
  A dict without \<^verbatim>\<open>"content"\<close> as the last message, with both services up: the empty
  text goes to the search. An object whose \<^verbatim>\<open>__str__\<close> raises: its exception ends the
  call.
\<close>

theorem user_text_by_shape_witness:
  "chatbot env_up \<lparr>messages = []\<rparr> None = (Inl IndexError, [])
   \<and> snd (chatbot env_up \<lparr>messages = [Dict [(''role'', JStr ''user'')]]\<rparr> None) =
       [SearchInvoke [],
        HttpPost (sonar_request env_up (SYSTEM_PROMPT ''Paris is the capital of France.'' []))]
   \<and> chatbot env_str_raises \<lparr>messages = [HumanMessage (JStr ''hi''), Other ''broken'']\<rparr> None =
       (Inl ValueError, [])"
proof -
  let ?m = "Dict [(''role'', JStr ''user'')]"
  let ?ms = "[HumanMessage (JStr ''hi''), Other ''broken'']"
  have h1: "[?m] \<noteq> []"
    by simp
  have h2: "\<exists>d. last [?m] = Dict d \<and> map_of d ''content'' = None \<and> JStr [] = JStr []"
    by simp
  have c: "\<not> is_casual []"
    by (simp add: is_casual_def casual_keywords_def str_lower_def)
  have s: "search env_up [] = Inr ''Paris is the capital of France.''"
    by (simp add: env_up_def)
  have r: "snd (respond env_up [] True) =
      [SearchInvoke [],
       HttpPost (sonar_request env_up (SYSTEM_PROMPT ''Paris is the capital of France.'' []))]"
    using c s by (simp add: respond_search_returns)
  have g1: "?ms \<noteq> []"
    by simp
  have g2: "(\<exists>c. last ?ms = AIMessage c) \<or> (\<exists>x. last ?ms = Other x)"
    by simp
  have g3: "str_of env_str_raises (last ?ms) = Inl ValueError"
    by (simp add: env_str_raises_def)
  have a: "chatbot env_up \<lparr>messages = [?m]\<rparr> None =
      (case respond env_up [] True of
         (Inl e, evs) \<Rightarrow> (Inl e, evs)
       | (Inr r, evs) \<Rightarrow>
           (Inr (\<lparr>messages = [?m] @ [Dict [(''role'', JStr ''assistant''), (''content'', r)]]\<rparr>,
                 \<lparr>messages = [Dict [(''role'', JStr ''assistant''), (''content'', r)]]\<rparr>),
            evs))"
    using user_text_by_shape [where env = env_up and arg = None and ms = "[?m]" and q = "JStr []"]
      h1 h2
    by simp
  have b: "chatbot env_str_raises \<lparr>messages = ?ms\<rparr> None = (Inl ValueError, [])"
    using user_text_by_shape
      [where env = env_str_raises and arg = None and ms = ?ms and e = ValueError]
      g1 g2 g3
    by blast
  have e: "chatbot env_up \<lparr>messages = []\<rparr> None = (Inl IndexError, [])"
    using user_text_by_shape [where env = env_up and arg = None] by blast
  show ?thesis
    using a b e r by (simp split: prod.splits sum.splits)
qed

text \<open>
  The claim as it is written fails at an object of another class whose \<^verbatim>\<open>__str__\<close>
  raises: the list is not empty, and the extraction on line 61 raises before any call.
\<close>

theorem str_of_last_message_raises_counterexample:
  "[Other ''broken''] \<noteq> []
   \<and> get_user_question env_str_raises (last [Other ''broken'']) = Inl ValueError
   \<and> chatbot env_str_raises \<lparr>messages = [Other ''broken'']\<rparr> None = (Inl ValueError, [])"
  by (simp add: chatbot_def py_last_def env_str_raises_def)

text \<open>
  C10. A successful \<^verbatim>\<open>chatbot\<close> call leaves the caller's list one assistant dict longer
  and returns that same dict as its update. Merging the update into the appended list
  with \<^verbatim>\<open>add_messages\<close> gives the assistant message twice, and so does \<^verbatim>\<open>graph.invoke\<close>
  on a user message.
\<close>

theorem chatbot_appends_in_place_and_returns_update:
  "(chatbot env st arg = (Inr (st', upd), evs) \<longrightarrow>
      (\<exists>r. messages st' = messages st @ [assistant_dict r]
         \<and> messages upd = [assistant_dict r]
         \<and> (\<forall>l a. convert_to_messages (messages st) = Inr l
                \<and> convert_to_message (assistant_dict r) = Inr a
              \<longrightarrow> add_messages (messages st') (messages upd) = Inr (l @ [a, a]))))
   \<and> (u \<noteq> [] \<and> graph_invoke env \<lparr>messages_in = [user_dict u], search_enabled_in = se\<rparr> =
         (Inr result, evs')
      \<longrightarrow> (\<exists>c. messages result = [HumanMessage (JStr u), AIMessage c, AIMessage c]))"
proof
  show "chatbot env st arg = (Inr (st', upd), evs) \<longrightarrow>
      (\<exists>r. messages st' = messages st @ [assistant_dict r]
         \<and> messages upd = [assistant_dict r]
         \<and> (\<forall>l a. convert_to_messages (messages st) = Inr l
                \<and> convert_to_message (assistant_dict r) = Inr a
              \<longrightarrow> add_messages (messages st') (messages upd) = Inr (l @ [a, a])))"
  proof
    assume "chatbot env st arg = (Inr (st', upd), evs)"
    then obtain r where r: "st' = st\<lparr>messages := messages st @ [assistant_dict r]\<rparr>"
      "upd = \<lparr>messages = [assistant_dict r]\<rparr>"
      using chatbot_success_shape by blast
    have "add_messages (messages st') (messages upd) = Inr (l @ [a, a])"
      if "convert_to_messages (messages st) = Inr l"
        "convert_to_message (assistant_dict r) = Inr a" for l a
      using that r by (simp add: add_messages_def convert_to_messages_append)
    then show "\<exists>r. messages st' = messages st @ [assistant_dict r]
         \<and> messages upd = [assistant_dict r]
         \<and> (\<forall>l a. convert_to_messages (messages st) = Inr l
                \<and> convert_to_message (assistant_dict r) = Inr a
              \<longrightarrow> add_messages (messages st') (messages upd) = Inr (l @ [a, a]))"
      using r by auto
  qed
  show "u \<noteq> [] \<and> graph_invoke env \<lparr>messages_in = [user_dict u], search_enabled_in = se\<rparr> =
         (Inr result, evs')
      \<longrightarrow> (\<exists>c. messages result = [HumanMessage (JStr u), AIMessage c, AIMessage c])"
    by (auto simp: graph_invoke_user split: prod.splits sum.splits if_splits)
qed

text \<open>The message \<^verbatim>\<open>hello\<close> with both services up: the answer is in the graph state twice.\<close>

theorem chatbot_appends_in_place_and_returns_update_witness:
  "chatbot env_up \<lparr>messages = [HumanMessage (JStr ''hello'')]\<rparr> None =
     (Inr (\<lparr>messages = [HumanMessage (JStr ''hello''), assistant_dict (JStr ''Paris.'')]\<rparr>,
           \<lparr>messages = [assistant_dict (JStr ''Paris.'')]\<rparr>),
      [HttpPost (sonar_request env_up ''hello'')])
   \<and> add_messages [HumanMessage (JStr ''hello''), assistant_dict (JStr ''Paris.'')]
       [assistant_dict (JStr ''Paris.'')] =
     Inr [HumanMessage (JStr ''hello''), AIMessage (JStr ''Paris.''), AIMessage (JStr ''Paris.'')]
   \<and> fst (graph_invoke env_up \<lparr>messages_in = [user_dict ''hello''], search_enabled_in = True\<rparr>) =
     Inr \<lparr>messages = [HumanMessage (JStr ''hello''), AIMessage (JStr ''Paris.''),
                      AIMessage (JStr ''Paris.'')]\<rparr>"
proof -
  let ?st = "\<lparr>messages = [HumanMessage (JStr ''hello'')]\<rparr>"
  let ?st' = "\<lparr>messages = [HumanMessage (JStr ''hello''), assistant_dict (JStr ''Paris.'')]\<rparr>"
  let ?upd = "\<lparr>messages = [assistant_dict (JStr ''Paris.'')]\<rparr>"
  let ?evs = "[HttpPost (sonar_request env_up ''hello'')]"
  let ?res = "\<lparr>messages = [HumanMessage (JStr ''hello''), AIMessage (JStr ''Paris.''),
                      AIMessage (JStr ''Paris.'')]\<rparr>"
  have casual: "is_casual ''hello''"
    by code_simp
  have call: "call_sonar_api env_up ''hello'' = (Inr (JStr ''Paris.''), ?evs)"
    by (simp add: call_sonar_api_def env_up_def raise_for_status_def completion_body_def Let_def)
  have c: "chatbot env_up ?st None = (Inr (?st', ?upd), ?evs)"
    using casual call by (simp add: chatbot_on_string respond_direct)
  have g: "graph_invoke env_up \<lparr>messages_in = [user_dict ''hello''], search_enabled_in = True\<rparr> =
      (Inr ?res, ?evs)"
    using casual call by (simp add: graph_invoke_user respond_direct)
  have l: "convert_to_messages (messages ?st) = Inr [HumanMessage (JStr ''hello'')]"
    by simp
  have a: "convert_to_message (assistant_dict (JStr ''Paris.'')) = Inr (AIMessage (JStr ''Paris.''))"
    by (simp add: convert_assistant_dict)
  have n: "''hello'' \<noteq> []"
    by simp
  show ?thesis
    using chatbot_appends_in_place_and_returns_update
      [where env = env_up and st = ?st and arg = None and st' = ?st' and upd = ?upd
         and evs = ?evs and u = "''hello''" and se = True and result = ?res and evs' = ?evs]
      c g l a n
    by (auto simp: assistant_dict_def)
qed

subsection \<open>The turn\<close>

text \<open>
  C3. In a turn on a submitted text, when the call that the turn makes to the Search
  Provider or to the Completion Client raises an exception, the handler ends normally:
  the session's list gets the user message (role \<^verbatim>\<open>user\<close>, the submitted text) and a
  message with the role \<^verbatim>\<open>assistant\<close> whose content is
  \<^verbatim>\<open>Sorry, I encountered an error: \<close> followed by the exception's text.
\<close>

theorem turn_failure_becomes_assistant_message:
  assumes "u \<noteq> []"
    and "(is_casual u \<and> fst (call_sonar_api env u) = Inl e)
       \<or> (\<not> is_casual u \<and> search env u = Inl e)
       \<or> (\<exists>r. \<not> is_casual u \<and> search env u = Inr r
             \<and> fst (call_sonar_api env (SYSTEM_PROMPT r u)) = Inl e)"
  shows "fst (chat_turn env se session (Some u)) =
           session @
           [Dict [(''role'', JStr ''user''), (''content'', JStr u)],
            Dict [(''role'', JStr ''assistant''),
                  (''content'', JStr (''Sorry, I encountered an error: '' @ str_exn env e))]]"
proof -
  have "fst (respond env u True) = Inl e"
    using assms(2)
    by (auto simp: respond_direct respond_search_raises respond_search_returns)
  then obtain evs where "respond env u True = (Inl e, evs)"
    by (cases "respond env u True") simp
  then show ?thesis
    using assms(1) by (simp add: chat_turn_user error_msg_def user_dict_def assistant_dict_def)
qed

text \<open>
  The endpoint answers 500 to \<^verbatim>\<open>hello\<close>, and the Search Provider is down for the question
  about France; a next turn with the services up goes on from the list left behind.
\<close>

theorem turn_failure_becomes_assistant_message_witness:
  "fst (chat_turn env_api_down True [] (Some ''hello'')) =
     [Dict [(''role'', JStr ''user''), (''content'', JStr ''hello'')],
      Dict [(''role'', JStr ''assistant''),
            (''content'', JStr ''Sorry, I encountered an error: failure'')]]
   \<and> fst (chat_turn env_search_down True [] (Some ''What is the capital of France?'')) =
     [Dict [(''role'', JStr ''user''), (''content'', JStr ''What is the capital of France?'')],
      Dict [(''role'', JStr ''assistant''),
            (''content'', JStr ''Sorry, I encountered an error: failure'')]]"
proof -
  have n1: "''hello'' \<noteq> []"
    by simp
  have c1: "is_casual ''hello''"
    by code_simp
  have r1: "fst (call_sonar_api env_api_down ''hello'') = Inl (HTTPError 500)"
    by (simp add: call_sonar_api_def env_api_down_def env_up_def raise_for_status_def Let_def)
  have n2: "''What is the capital of France?'' \<noteq> []"
    by simp
  have c2: "\<not> is_casual ''What is the capital of France?''"
    by code_simp
  have r2: "search env_search_down ''What is the capital of France?'' =
      Inl (External ''search timed out'')"
    by (simp add: env_search_down_def)
  have s1: "str_exn env_api_down (HTTPError 500) = ''failure''"
    by (simp add: env_api_down_def env_up_def)
  have s2: "str_exn env_search_down (External ''search timed out'') = ''failure''"
    by (simp add: env_search_down_def env_up_def)
  show ?thesis
    using turn_failure_becomes_assistant_message
        [where u = "''hello''" and env = env_api_down and e = "HTTPError 500"
           and se = True and session = "[]"]
      turn_failure_becomes_assistant_message
        [where u = "''What is the capital of France?''" and env = env_search_down
           and e = "External ''search timed out''" and se = True and session = "[]"]
      n1 c1 r1 n2 c2 r2 s1 s2
    by simp
qed



subsection \<open>The search toggle\<close>

text \<open>
  C1. Called with the flag false, \<^verbatim>\<open>chatbot\<close> sends the raw text of a question without a
  casual keyword to the Completion Client and makes no search. The turn handler does not
  call it so: with the sidebar checkbox off, the turn on
  \<^verbatim>\<open>What is the capital of France?\<close> is the turn with the checkbox on, and its first
  call is the search for that question.
\<close>

theorem search_toggle_off_still_searches:
  "snd (chatbot env \<lparr>messages = [HumanMessage (JStr ''What is the capital of France?'')]\<rparr>
          (Some False)) =
     [HttpPost (sonar_request env ''What is the capital of France?'')]
   \<and> chat_turn env False session (Some ''What is the capital of France?'') =
     chat_turn env True session (Some ''What is the capital of France?'')
   \<and> hd (snd (chat_turn env False session (Some ''What is the capital of France?''))) =
     SearchInvoke ''What is the capital of France?''
   \<and> snd (chat_turn env False session (Some ''What is the capital of France?'')) \<noteq>
     [HttpPost (sonar_request env ''What is the capital of France?'')]"
proof -
  let ?u = "''What is the capital of France?''"
  have n: "?u \<noteq> []"
    by simp
  have c: "\<not> is_casual ?u"
    by code_simp
  have direct: "snd (chatbot env \<lparr>messages = [HumanMessage (JStr ?u)]\<rparr> (Some False)) =
      [HttpPost (sonar_request env ?u)]"
    by (simp add: chatbot_events respond_direct call_sonar_api_events)
  have same: "chat_turn env False session (Some ?u) = chat_turn env True session (Some ?u)"
    by (simp add: chat_turn_user)
  have evs: "snd (chat_turn env se session (Some ?u)) = snd (respond env ?u True)" for se
    using n by (simp add: chat_turn_user split: prod.splits sum.splits)
  have first: "\<exists>rest. snd (respond env ?u True) = SearchInvoke ?u # rest"
    using c by (cases "search env ?u") (simp_all add: respond_search_raises respond_search_returns)
  show ?thesis
    using direct same evs [of False] first by auto
qed

text \<open>The turn with the checkbox off and both services up.\<close>

theorem search_toggle_off_still_searches_witness:
  "snd (chat_turn env_up False [] (Some ''What is the capital of France?'')) =
     [SearchInvoke ''What is the capital of France?'',
      HttpPost (sonar_request env_up
        (SYSTEM_PROMPT ''Paris is the capital of France.'' ''What is the capital of France?''))]"
proof -
  let ?u = "''What is the capital of France?''"
  have n: "?u \<noteq> []"
    by simp
  have c: "\<not> is_casual ?u"
    by code_simp
  have s: "search env_up ?u = Inr ''Paris is the capital of France.''"
    by (simp add: env_up_def)
  have "snd (chat_turn env_up True [] (Some ?u)) =
     [SearchInvoke ?u,
      HttpPost (sonar_request env_up (SYSTEM_PROMPT ''Paris is the capital of France.'' ?u))]"
    using n c s by (simp add: chat_turn_user respond_search_returns split: sum.splits)
  then show ?thesis
    using search_toggle_off_still_searches [of env_up "[]"] by simp
qed

subsection \<open>Completion Client\<close>

text \<open>
  C7, as the code has it. For every prompt the Completion Client posts one request, once:
  to the completions URL, with the bearer credential, and with the body
  \<^verbatim>\<open>{model: sonar, messages: [{role: user, content: prompt}], max_tokens: 500, temperature: 0.7}\<close>.
  An exception of the transport is raised on. A response with a status from 400 to 599
  raises \<^verbatim>\<open>HTTPError\<close>. A response with any other status (2xx or not) whose JSON holds
  \<^verbatim>\<open>choices[0].message.content\<close> returns that content.
\<close>

theorem completion_client_contract:
  "snd (call_sonar_api env prompt) = [HttpPost (sonar_request env prompt)]
   \<and> sonar_request env prompt =
       \<lparr> url = ''https://api.perplexity.ai/chat/completions'',
         headers = [(''Authorization'', ''Bearer '' @ api_key env),
                    (''Content-Type'', ''application/json'')],
         body = JObj [(''model'', JStr ''sonar''),
                      (''messages'', JArr [JObj [(''role'', JStr ''user''),
                                                 (''content'', JStr prompt)]]),
                      (''max_tokens'', JInt 500),
                      (''temperature'', JFloat (7 / 10))] \<rparr>
   \<and> (\<forall>e. http_post env (sonar_request env prompt) = Inl e
          \<longrightarrow> fst (call_sonar_api env prompt) = Inl e)
   \<and> (\<forall>resp. http_post env (sonar_request env prompt) = Inr resp
          \<and> 400 \<le> status_code resp \<and> status_code resp < 600
          \<longrightarrow> fst (call_sonar_api env prompt) = Inl (HTTPError (status_code resp)))
   \<and> (\<forall>resp top choice rest msg content.
          http_post env (sonar_request env prompt) = Inr resp
          \<and> \<not> (400 \<le> status_code resp \<and> status_code resp < 600)
          \<and> json_result resp = Inr (JObj top)
          \<and> map_of top ''choices'' = Some (JArr (JObj choice # rest))
          \<and> map_of choice ''message'' = Some (JObj msg)
          \<and> map_of msg ''content'' = Some content
          \<longrightarrow> fst (call_sonar_api env prompt) = Inr content)"
  by (auto simp: call_sonar_api_def sonar_request_def raise_for_status_def Let_def)

text \<open>The endpoint answering 200, the endpoint answering 500, and a prompt's request.\<close>

theorem completion_client_contract_witness:
  "call_sonar_api env_up ''hello'' =
     (Inr (JStr ''Paris.''), [HttpPost (sonar_request env_up ''hello'')])
   \<and> call_sonar_api env_api_down ''hello'' =
     (Inl (HTTPError 500), [HttpPost (sonar_request env_api_down ''hello'')])"
proof -
  let ?ok = "\<lparr>status_code = 200, json_result = Inr (completion_body ''Paris.'')\<rparr>"
  let ?bad = "\<lparr>status_code = 500, json_result = Inl (External ''no JSON'')\<rparr>"
  have p1: "http_post env_up (sonar_request env_up ''hello'') = Inr ?ok"
    by (simp add: env_up_def)
  have p2: "http_post env_api_down (sonar_request env_api_down ''hello'') = Inr ?bad"
    by (simp add: env_api_down_def)
  have j: "json_result ?ok = Inr (JObj [(''id'', JStr ''1''),
           (''choices'', JArr [JObj [(''index'', JInt 0),
                                     (''message'', JObj [(''role'', JStr ''assistant''),
                                                         (''content'', JStr ''Paris.'')])]])])"
    by (simp add: completion_body_def)
  have ok: "fst (call_sonar_api env_up ''hello'') = Inr (JStr ''Paris.'')"
    using completion_client_contract [of env_up "''hello''"] p1 j
    by (simp add: completion_body_def)
  have bad: "fst (call_sonar_api env_api_down ''hello'') = Inl (HTTPError 500)"
    using completion_client_contract [of env_api_down "''hello''"] p2 by simp
  show ?thesis
    using ok bad completion_client_contract [of env_up "''hello''"]
      completion_client_contract [of env_api_down "''hello''"]
    by (simp add: prod_eq_iff)
qed

text \<open>
  The claim as it is written fails at the status 300, which is no success status: the
  Completion Client returns the content of the response and does not raise.
\<close>

theorem non_success_status_returns_counterexample:
  "\<not> spec_success_status 300
   \<and> http_post env_redirect (sonar_request env_redirect ''hello'') =
     Inr \<lparr>status_code = 300, json_result = Inr (completion_body ''elsewhere'')\<rparr>
   \<and> call_sonar_api env_redirect ''hello'' =
     (Inr (JStr ''elsewhere''), [HttpPost (sonar_request env_redirect ''hello'')])"
  by (simp add: spec_success_status_def call_sonar_api_def env_redirect_def env_up_def
      raise_for_status_def completion_body_def Let_def)

end
